theory Spec2Isabelle
  imports Main
begin

section \<open>The daemon's RPC interface, as the core client provider sees it\<close>

text \<open>
  The embedding follows \<^verbatim>\<open>CoreClientProvider\<close> (the second document of
  \<^verbatim>\<open>arduino-problem-contribution.ts\<close>, lines 26-198). The gRPC daemon, the tool
  output service and the two event emitters are outside the class; what the class does to
  them is recorded, in order, in a trace of effects, and what the daemon answers is a
  script: the stream delivered to the n-th call of each RPC.
\<close>

text \<open>\<^verbatim>\<open>Instance\<close> is an opaque handle issued by the daemon.\<close>

type_synonym Instance = nat

text \<open>
  Of a \<^verbatim>\<open>DownloadProgress\<close> message the code reads \<^verbatim>\<open>getFile()\<close> and
  \<^verbatim>\<open>getCompleted()\<close> only. A \<open>char\<close> stands for one code unit of the
  JavaScript string (code units below 256).
\<close>

record DownloadProgress =
  getFile :: string
  getCompleted :: bool

text \<open>
  \<^verbatim>\<open>UpdateIndexResp\<close> and \<^verbatim>\<open>UpdateLibrariesIndexResp\<close>: the code reads
  \<^verbatim>\<open>getDownloadProgress()\<close> only, which may be undefined.
\<close>

record UpdateIndexResp =
  getDownloadProgress :: "DownloadProgress option"

type_synonym UpdateLibrariesIndexResp = UpdateIndexResp

text \<open>\<^verbatim>\<open>InitResp\<close>: the code reads \<^verbatim>\<open>getInstance()\<close> only, which may be undefined.\<close>

record InitResp =
  getInstance :: "Instance option"

text \<open>
  A server stream delivers its \<^verbatim>\<open>'data'\<close> events and then either \<^verbatim>\<open>'end'\<close> or
  \<^verbatim>\<open>'error'\<close>; the error is carried as the text that \<^verbatim>\<open>${e}\<close> renders.
\<close>

datatype stream_end = OnEnd | OnError string

type_synonym 'a stream = "'a list \<times> stream_end"

record daemon =
  rpc_init :: "nat \<Rightarrow> InitResp stream"
  rpc_updateIndex :: "nat \<Rightarrow> UpdateIndexResp stream"
  rpc_updateLibrariesIndex :: "nat \<Rightarrow> UpdateLibrariesIndexResp stream"

text \<open>
  What is thrown: the rejection of a stream's promise, the explicit
  \<^verbatim>\<open>Error('Could not retrieve instance from the initialize response.')\<close> of line 87, and
  the \<^verbatim>\<open>TypeError\<close> JavaScript raises when a method is called on \<^verbatim>\<open>undefined\<close>.
\<close>

datatype error = StreamError string | InitializationError | TypeError

fun toString :: "error \<Rightarrow> string" where
  "toString (StreamError err) = err"
| "toString InitializationError =
     ''Error: Could not retrieve instance from the initialize response.''"
| "toString TypeError = ''TypeError: Cannot read property '' @ [CHR 0x27] @ ''getInstance''
     @ [CHR 0x27] @ '' of undefined''"

section \<open>State and effects\<close>

record ToolOutput =
  tool :: string
  chunk :: string
  severity :: "string option"

record Client =
  client :: string
  inst :: Instance

datatype effect =
    Connect string
  | Close string
  | InitCall string
  | UpdateIndexCall string Instance
  | UpdateLibrariesIndexCall string Instance
  | Append ToolOutput
  | IndexUpdatedFired
  | ClientReadyFired

text \<open>
  \<open>this_port\<close> and \<open>this_client\<close> are the fields \<^verbatim>\<open>_port\<close> and \<^verbatim>\<open>_client\<close>;
  the three counters say how many calls of each RPC the daemon has received.
\<close>

record world =
  this_port :: "string option"
  this_client :: "Client option"
  trace :: "effect list"
  initCalls :: nat
  indexCalls :: nat
  libCalls :: nat

definition emit :: "effect \<Rightarrow> world \<Rightarrow> world" where
  "emit e w = w\<lparr>trace := trace w @ [e]\<rparr>"

text \<open>\<^verbatim>\<open>this.toolOutputService.append(...)\<close>\<close>

definition toolOutputService_append :: "ToolOutput \<Rightarrow> world \<Rightarrow> world" where
  "toolOutputService_append out w = emit (Append out) w"

section \<open>JavaScript helpers\<close>

text \<open>Truthiness of a \<^verbatim>\<open>string | undefined\<close>: defined and not empty.\<close>

fun truthy :: "string option \<Rightarrow> bool" where
  "truthy None = False"
| "truthy (Some s) = (s \<noteq> [])"

text \<open>The class \<^verbatim>\<open>\s\<close> of a regular expression, on code units below 256.\<close>

definition isWhitespace :: "char \<Rightarrow> bool" where
  "isWhitespace c = (c = CHR 0x09 \<or> c = CHR 0x0A \<or> c = CHR 0x0B \<or> c = CHR 0x0C
     \<or> c = CHR 0x0D \<or> c = CHR 0x20 \<or> c = CHR 0xA0)"

text \<open>\<^verbatim>\<open>/\s/.test(file)\<close>\<close>

definition test_whitespace :: "string \<Rightarrow> bool" where
  "test_whitespace s = list_ex isWhitespace s"

text \<open>\<^verbatim>\<open>${i}\<close> for a non-negative integer: its decimal digits.\<close>

fun showNat :: "nat \<Rightarrow> string" where
  "showNat n =
     (if n < 10 then [''0123456789'' ! n]
      else showNat (n div 10) @ [''0123456789'' ! (n mod 10)])"

section \<open>updateIndex and updateLibraryIndex (lines 130-190)\<close>

text \<open>
  The \<^verbatim>\<open>'data'\<close> handler of \<^verbatim>\<open>updateIndex\<close> (lines 166-185); its state is
  the closure variable \<^verbatim>\<open>file\<close>.
\<close>

definition updateIndex_onData ::
  "string option \<times> world \<Rightarrow> UpdateIndexResp \<Rightarrow> string option \<times> world" where
  "updateIndex_onData s o' =
     (case s of (file, w) \<Rightarrow>
       (case getDownloadProgress o' of
          None \<Rightarrow> (file, w)
        | Some progress \<Rightarrow>
            (let file1 = (if \<not> truthy file \<and> truthy (Some (getFile progress))
                          then Some (getFile progress) else file)
             in if getCompleted progress then
                  (None,
                   (case file1 of
                      Some f \<Rightarrow>
                        if f \<noteq> [] then
                          (if test_whitespace f then
                             toolOutputService_append
                               \<lparr>tool = ''daemon'',
                                chunk = f @ '' completed.'' @ [CHR 0x0A],
                                severity = None\<rparr> w
                           else
                             toolOutputService_append
                               \<lparr>tool = ''daemon'',
                                chunk = ''Download of '' @ [CHR 0x27] @ f @ [CHR 0x27]
                                  @ '' completed.'' @ [CHR 0x0A, CHR 0x27],
                                severity = None\<rparr> w)
                        else
                          toolOutputService_append
                            \<lparr>tool = ''daemon'',
                             chunk = ''The index has been successfully updated.''
                               @ [CHR 0x0A, CHR 0x27],
                             severity = None\<rparr> w
                    | None \<Rightarrow>
                        toolOutputService_append
                          \<lparr>tool = ''daemon'',
                           chunk = ''The index has been successfully updated.''
                             @ [CHR 0x0A, CHR 0x27],
                           severity = None\<rparr> w))
                else (file1, w))))"

text \<open>
  \<^verbatim>\<open>updateIndex\<close> (lines 161-190): the request goes out, the handler sees every
  message, and the promise resolves on \<^verbatim>\<open>'end'\<close> or rejects on \<^verbatim>\<open>'error'\<close>.
\<close>

definition updateIndex :: "daemon \<Rightarrow> Client \<Rightarrow> world \<Rightarrow> (error + unit) \<times> world" where
  "updateIndex d c w =
     (case rpc_updateIndex d (indexCalls w) of (msgs, fin) \<Rightarrow>
       (let w1 = emit (UpdateIndexCall (client c) (inst c))
                   (w\<lparr>indexCalls := Suc (indexCalls w)\<rparr>);
            w2 = snd (foldl updateIndex_onData (None, w1) msgs)
        in case fin of
             OnEnd \<Rightarrow> (Inr (), w2)
           | OnError err \<Rightarrow> (Inl (StreamError err), w2)))"

text \<open>The \<^verbatim>\<open>'data'\<close> handler of \<^verbatim>\<open>updateLibraryIndex\<close> (lines 135-154).\<close>

definition updateLibraryIndex_onData ::
  "string option \<times> world \<Rightarrow> UpdateLibrariesIndexResp \<Rightarrow> string option \<times> world" where
  "updateLibraryIndex_onData s data =
     (case s of (file, w) \<Rightarrow>
       (case getDownloadProgress data of
          None \<Rightarrow> (file, w)
        | Some progress \<Rightarrow>
            (let file1 = (if \<not> truthy file \<and> truthy (Some (getFile progress))
                          then Some (getFile progress) else file)
             in if getCompleted progress then
                  (None,
                   (case file1 of
                      Some f \<Rightarrow>
                        if f \<noteq> [] then
                          (if test_whitespace f then
                             toolOutputService_append
                               \<lparr>tool = ''daemon'',
                                chunk = f @ '' completed.'' @ [CHR 0x0A],
                                severity = None\<rparr> w
                           else
                             toolOutputService_append
                               \<lparr>tool = ''daemon'',
                                chunk = ''Download of '' @ [CHR 0x27] @ f @ [CHR 0x27]
                                  @ '' completed.'' @ [CHR 0x0A, CHR 0x27],
                                severity = None\<rparr> w)
                        else
                          toolOutputService_append
                            \<lparr>tool = ''daemon'',
                             chunk = ''The library index has been successfully updated.''
                               @ [CHR 0x0A, CHR 0x27],
                             severity = None\<rparr> w
                    | None \<Rightarrow>
                        toolOutputService_append
                          \<lparr>tool = ''daemon'',
                           chunk = ''The library index has been successfully updated.''
                             @ [CHR 0x0A, CHR 0x27],
                           severity = None\<rparr> w))
                else (file1, w))))"

text \<open>\<^verbatim>\<open>updateLibraryIndex\<close> (lines 130-159).\<close>

definition updateLibraryIndex ::
  "daemon \<Rightarrow> Client \<Rightarrow> world \<Rightarrow> (error + unit) \<times> world" where
  "updateLibraryIndex d c w =
     (case rpc_updateLibrariesIndex d (libCalls w) of (msgs, fin) \<Rightarrow>
       (let w1 = emit (UpdateLibrariesIndexCall (client c) (inst c))
                   (w\<lparr>libCalls := Suc (libCalls w)\<rparr>);
            w2 = snd (foldl updateLibraryIndex_onData (None, w1) msgs)
        in case fin of
             OnEnd \<Rightarrow> (Inr (), w2)
           | OnError err \<Rightarrow> (Inl (StreamError err), w2)))"

section \<open>updateIndexes (lines 95-128)\<close>

text \<open>
  The first \<^verbatim>\<open>for\<close> loop (lines 98-106), from counter \<open>i\<close> on. The flag
  \<^verbatim>\<open>indexUpdateSucceeded\<close> is passed through: a successful attempt sets it and
  breaks, a caught failure appends one line to the tool output and goes on.
\<close>

function updateIndexes_indexLoop ::
  "daemon \<Rightarrow> Client \<Rightarrow> nat \<Rightarrow> bool \<Rightarrow> world \<Rightarrow> bool \<times> world" where
  "updateIndexes_indexLoop d c i indexUpdateSucceeded w =
     (if i < 10 then
        (case updateIndex d c w of
           (Inr u, w1) \<Rightarrow> (True, w1)
         | (Inl e, w1) \<Rightarrow>
             updateIndexes_indexLoop d c (Suc i) indexUpdateSucceeded
               (toolOutputService_append
                  \<lparr>tool = ''daemon'',
                   chunk = ''Error while updating index in attempt '' @ showNat i @ '': ''
                     @ toString e,
                   severity = Some ''error''\<rparr> w1))
      else (indexUpdateSucceeded, w))"
  by pat_completeness auto
termination
  by (relation "measure (\<lambda>(d, c, i, s, w). 10 - i)") auto

text \<open>The second \<^verbatim>\<open>for\<close> loop (lines 112-120).\<close>

function updateIndexes_libLoop ::
  "daemon \<Rightarrow> Client \<Rightarrow> nat \<Rightarrow> bool \<Rightarrow> world \<Rightarrow> bool \<times> world" where
  "updateIndexes_libLoop d c i libIndexUpdateSucceeded w =
     (if i < 10 then
        (case updateLibraryIndex d c w of
           (Inr u, w1) \<Rightarrow> (True, w1)
         | (Inl e, w1) \<Rightarrow>
             updateIndexes_libLoop d c (Suc i) libIndexUpdateSucceeded
               (toolOutputService_append
                  \<lparr>tool = ''daemon'',
                   chunk = ''Error while updating library index in attempt '' @ showNat i
                     @ '': '' @ toString e,
                   severity = Some ''error''\<rparr> w1))
      else (libIndexUpdateSucceeded, w))"
  by pat_completeness auto
termination
  by (relation "measure (\<lambda>(d, c, i, s, w). 10 - i)") auto

text \<open>
  \<^verbatim>\<open>updateIndexes\<close>: both flags start as \<^verbatim>\<open>true\<close> (lines 97 and 111), as the
  source has them.
\<close>

definition updateIndexes :: "daemon \<Rightarrow> Client \<Rightarrow> world \<Rightarrow> (error + unit) \<times> world" where
  "updateIndexes d c w =
     (case updateIndexes_indexLoop d c 0 True w of (indexUpdateSucceeded, w1) \<Rightarrow>
       (let w2 = (if \<not> indexUpdateSucceeded then
                    toolOutputService_append
                      \<lparr>tool = ''daemon'',
                       chunk = ''Was unable to update the index. Please restart to try again.'',
                       severity = Some ''error''\<rparr> w1
                  else w1)
        in case updateIndexes_libLoop d c 0 True w2 of (libIndexUpdateSucceeded, w3) \<Rightarrow>
          (let w4 = (if \<not> libIndexUpdateSucceeded then
                       toolOutputService_append
                         \<lparr>tool = ''daemon'',
                          chunk = ''Was unable to update the library index. Please restart to try again.'',
                          severity = Some ''error''\<rparr> w3
                     else w3);
               w5 = (if indexUpdateSucceeded \<and> libIndexUpdateSucceeded then
                       emit IndexUpdatedFired w4
                     else w4)
           in (Inr (), w5))))"

section \<open>createClient and close (lines 53-55, 70-93)\<close>

text \<open>
  The promise of lines 77-83: \<^verbatim>\<open>resp\<close> starts undefined, every message overwrites
  it, \<^verbatim>\<open>'end'\<close> resolves with it and \<^verbatim>\<open>'error'\<close> rejects.
\<close>

definition createClient_initResp :: "InitResp stream \<Rightarrow> error + InitResp option" where
  "createClient_initResp s =
     (case s of (msgs, fin) \<Rightarrow>
       (case fin of
          OnEnd \<Rightarrow> Inr (foldl (\<lambda>resp data. Some data) None msgs)
        | OnError err \<Rightarrow> Inl (StreamError err)))"

text \<open>
  \<^verbatim>\<open>createClient\<close>: \<^verbatim>\<open>initResp.getInstance()\<close> on an undefined
  \<^verbatim>\<open>initResp\<close> is a \<^verbatim>\<open>TypeError\<close> (line 85); a response without instance is
  the explicit error of line 87.
\<close>

definition createClient :: "daemon \<Rightarrow> string \<Rightarrow> world \<Rightarrow> (error + Client) \<times> world" where
  "createClient d port w =
     (let address = ''localhost:'' @ port;
          w1 = emit (Connect address) w;
          w2 = emit (InitCall address) (w1\<lparr>initCalls := Suc (initCalls w1)\<rparr>)
      in case createClient_initResp (rpc_init d (initCalls w1)) of
           Inl e \<Rightarrow> (Inl e, w2)
         | Inr None \<Rightarrow> (Inl TypeError, w2)
         | Inr (Some initResp) \<Rightarrow>
             (case getInstance initResp of
                None \<Rightarrow> (Inl InitializationError, w2)
              | Some instance' \<Rightarrow>
                  (case updateIndexes d \<lparr>client = address, inst = instance'\<rparr> w2 of
                     (Inl e, w3) \<Rightarrow> (Inl e, w3)
                   | (Inr u, w3) \<Rightarrow> (Inr \<lparr>client = address, inst = instance'\<rparr>, w3))))"

text \<open>\<^verbatim>\<open>close\<close>: \<^verbatim>\<open>client.client.close()\<close>\<close>

definition close :: "Client \<Rightarrow> world \<Rightarrow> world" where
  "close c w = emit (Close (client c)) w"

section \<open>reconcileClient (lines 57-68)\<close>

text \<open>
  Modelled from the spec: \<^verbatim>\<open>GrpcClientProvider.reconcileClient\<close>, the method of the
  superclass that line 65 calls; \<^verbatim>\<open>grpc-client-provider.ts\<close> is not among the
  sources. The spec's words for this branch: retire any current Session (release its
  connection resource), perform the full handshake-and-create path; a handshake that fails
  returns the manager to having no session and the error is surfaced to the caller. The
  state machine starts a handshake on a known endpoint only, so for an absent endpoint
  the session is retired and nothing is created.
\<close>

definition super_reconcileClient ::
  "daemon \<Rightarrow> string option \<Rightarrow> world \<Rightarrow> (error + unit) \<times> world" where
  "super_reconcileClient d port w =
     (let w1 = (case this_client w of Some c \<Rightarrow> close c w | None \<Rightarrow> w);
          w2 = w1\<lparr>this_port := None, this_client := None\<rparr>
      in case port of
           None \<Rightarrow> (Inr (), w2)
         | Some p \<Rightarrow>
             (case createClient d p w2 of
                (Inl e, w3) \<Rightarrow> (Inl e, w3)
              | (Inr c, w3) \<Rightarrow> (Inr (), w3\<lparr>this_port := Some p, this_client := Some c\<rparr>)))"

text \<open>
  \<^verbatim>\<open>reconcileClient\<close>: \<^verbatim>\<open>port && port === this._port\<close> holds for a non-empty
  port equal to the stored one. Nothing is caught: what the superclass throws is thrown.
\<close>

definition reconcileClient ::
  "daemon \<Rightarrow> string option \<Rightarrow> world \<Rightarrow> (error + unit) \<times> world" where
  "reconcileClient d port w =
     (if truthy port \<and> port = this_port w then
        (case this_client w of
           Some c \<Rightarrow>
             (case updateIndexes d c w of
                (Inl e, w1) \<Rightarrow> (Inl e, w1)
              | (Inr u, w1) \<Rightarrow> (Inr (), emit ClientReadyFired w1))
         | None \<Rightarrow> (Inr (), w))
      else
        (case super_reconcileClient d port w of
           (Inl e, w1) \<Rightarrow> (Inl e, w1)
         | (Inr u, w1) \<Rightarrow> (Inr (), emit ClientReadyFired w1)))"

section \<open>Vocabulary of the specification\<close>

text \<open>
  The Progress Events of a stream: the messages that carry a download progress, in the
  order received.
\<close>

definition progressEvents :: "UpdateIndexResp list \<Rightarrow> DownloadProgress list" where
  "progressEvents msgs = List.map_filter getDownloadProgress msgs"

text \<open>
  The stream cut after every completed Progress Event: each segment holds the events
  since the last completion, the completed one last. Events after the last completion
  belong to no segment. \<open>cur\<close> holds the events of the segment under way.
\<close>

fun segmentsFrom ::
  "DownloadProgress list \<Rightarrow> DownloadProgress list \<Rightarrow> DownloadProgress list list" where
  "segmentsFrom cur [] = []"
| "segmentsFrom cur (p # ps) =
     (if getCompleted p then (cur @ [p]) # segmentsFrom [] ps
      else segmentsFrom (cur @ [p]) ps)"

definition completedSegments :: "DownloadProgress list \<Rightarrow> DownloadProgress list list" where
  "completedSegments evs = segmentsFrom [] evs"

text \<open>The filename tracked over a segment: the first one carried by an event of it.\<close>

definition trackedName :: "DownloadProgress list \<Rightarrow> string option" where
  "trackedName seg = find (\<lambda>f. f \<noteq> []) (map getFile seg)"

text \<open>
  The filename-based line, in its two phrasings: for a name with whitespace, and for a
  name without.
\<close>

definition fileLine :: "string \<Rightarrow> ToolOutput" where
  "fileLine f =
     (if test_whitespace f then
        \<lparr>tool = ''daemon'', chunk = f @ '' completed.'' @ [CHR 0x0A], severity = None\<rparr>
      else
        \<lparr>tool = ''daemon'',
         chunk = ''Download of '' @ [CHR 0x27] @ f @ [CHR 0x27] @ '' completed.''
           @ [CHR 0x0A, CHR 0x27],
         severity = None\<rparr>)"

text \<open>The generic lines of the two index kinds.\<close>

definition indexUpdatedLine :: ToolOutput where
  "indexUpdatedLine =
     \<lparr>tool = ''daemon'',
      chunk = ''The index has been successfully updated.'' @ [CHR 0x0A, CHR 0x27],
      severity = None\<rparr>"

definition libraryIndexUpdatedLine :: ToolOutput where
  "libraryIndexUpdatedLine =
     \<lparr>tool = ''daemon'',
      chunk = ''The library index has been successfully updated.'' @ [CHR 0x0A, CHR 0x27],
      severity = None\<rparr>"

text \<open>The completion line of one segment.\<close>

definition completionLine :: "ToolOutput \<Rightarrow> DownloadProgress list \<Rightarrow> ToolOutput" where
  "completionLine generic seg =
     (case trackedName seg of Some f \<Rightarrow> fileLine f | None \<Rightarrow> generic)"

text \<open>The terminal lines of lines 108 and 122.\<close>

definition unableIndexLine :: ToolOutput where
  "unableIndexLine =
     \<lparr>tool = ''daemon'',
      chunk = ''Was unable to update the index. Please restart to try again.'',
      severity = Some ''error''\<rparr>"

definition unableLibraryIndexLine :: ToolOutput where
  "unableLibraryIndexLine =
     \<lparr>tool = ''daemon'',
      chunk = ''Was unable to update the library index. Please restart to try again.'',
      severity = Some ''error''\<rparr>"

text \<open>Several effects at once.\<close>

definition emitAll :: "effect list \<Rightarrow> world \<Rightarrow> world" where
  "emitAll es w = w\<lparr>trace := trace w @ es\<rparr>"

text \<open>
  Kinds of effects: what a package-index attempt on client \<open>c\<close> may do, what a
  library-index attempt may do, and the line a caught attempt failure is turned into.
\<close>

fun indexEffect :: "Client \<Rightarrow> effect \<Rightarrow> bool" where
  "indexEffect c (UpdateIndexCall a i) = (a = client c \<and> i = inst c)"
| "indexEffect c (Append out) = True"
| "indexEffect c e = False"

fun libEffect :: "Client \<Rightarrow> effect \<Rightarrow> bool" where
  "libEffect c (UpdateLibrariesIndexCall a i) = (a = client c \<and> i = inst c)"
| "libEffect c (Append out) = True"
| "libEffect c e = False"

fun attemptErrorLine :: "effect \<Rightarrow> bool" where
  "attemptErrorLine (Append out) =
     (severity out = Some ''error'' \<and> take 21 (chunk out) = ''Error while updating '')"
| "attemptErrorLine e = False"

text \<open>The attempts among the calls \<open>m, ..., n - 1\<close> of an RPC whose stream ends in an error.\<close>

definition failedCalls :: "(nat \<Rightarrow> 'a stream) \<Rightarrow> nat \<Rightarrow> nat \<Rightarrow> nat list" where
  "failedCalls rpc m n = filter (\<lambda>j. snd (rpc j) \<noteq> OnEnd) [m ..< n]"

text \<open>
  The completion lines of a stream's messages, as effects, when the events in \<open>cur\<close>
  have been seen since the last completion.
\<close>

definition completionLines ::
  "ToolOutput \<Rightarrow> DownloadProgress list \<Rightarrow> UpdateIndexResp list \<Rightarrow> effect list" where
  "completionLines generic cur msgs =
     map (\<lambda>seg. Append (completionLine generic seg)) (segmentsFrom cur (progressEvents msgs))"

text \<open>How an attempt ends, given how its stream ends.\<close>

fun outcome :: "stream_end \<Rightarrow> error + unit" where
  "outcome OnEnd = Inr ()"
| "outcome (OnError err) = Inl (StreamError err)"

text \<open>What an index synchronization on client \<open>c\<close> may do.\<close>

fun syncEffect :: "Client \<Rightarrow> effect \<Rightarrow> bool" where
  "syncEffect c (UpdateIndexCall a i) = (a = client c \<and> i = inst c)"
| "syncEffect c (UpdateLibrariesIndexCall a i) = (a = client c \<and> i = inst c)"
| "syncEffect c (Append out) = True"
| "syncEffect c IndexUpdatedFired = True"
| "syncEffect c e = False"

fun isUpdateIndexCall :: "effect \<Rightarrow> bool" where
  "isUpdateIndexCall (UpdateIndexCall a i) = True"
| "isUpdateIndexCall e = False"

fun isUpdateLibrariesIndexCall :: "effect \<Rightarrow> bool" where
  "isUpdateLibrariesIndexCall (UpdateLibrariesIndexCall a i) = True"
| "isUpdateLibrariesIndexCall e = False"

section \<open>Concrete daemons and states\<close>

definition w0 :: world where
  "w0 = \<lparr>this_port = None, this_client = None, trace = [],
          initCalls = 0, indexCalls = 0, libCalls = 0\<rparr>"

definition c0 :: Client where
  "c0 = \<lparr>client = ''localhost:50051'', inst = 1\<rparr>"

text \<open>A manager that holds a session for endpoint 50051.\<close>

definition w_ready :: world where
  "w_ready = \<lparr>this_port = Some ''50051'', this_client = Some c0, trace = [],
               initCalls = 1, indexCalls = 1, libCalls = 1\<rparr>"

definition progress :: "string \<Rightarrow> bool \<Rightarrow> UpdateIndexResp" where
  "progress f done' = \<lparr>getDownloadProgress = Some \<lparr>getFile = f, getCompleted = done'\<rparr>\<rparr>"

text \<open>
  A daemon whose handshake yields instance 1 and whose index streams all end cleanly:
  the package stream downloads two files (the second name has a blank), the library
  stream completes without naming a file.
\<close>

definition d_ok :: daemon where
  "d_ok =
     \<lparr>rpc_init = (\<lambda>n. ([\<lparr>getInstance = None\<rparr>, \<lparr>getInstance = Some 1\<rparr>], OnEnd)),
      rpc_updateIndex = (\<lambda>n.
        ([progress ''package_index.json'' False, \<lparr>getDownloadProgress = None\<rparr>,
          progress ''other.json'' True, progress ''my index.json'' True], OnEnd)),
      rpc_updateLibrariesIndex = (\<lambda>n. ([progress [] False, progress [] True], OnEnd))\<rparr>"

text \<open>
  The spec's scenario: the package-index sync fails 10 times out of 10, the library-index
  sync succeeds on its third attempt.
\<close>

definition d_index_fails :: daemon where
  "d_index_fails =
     \<lparr>rpc_init = (\<lambda>n. ([\<lparr>getInstance = Some 1\<rparr>], OnEnd)),
      rpc_updateIndex = (\<lambda>n. ([], OnError ''Error: 14 UNAVAILABLE'')),
      rpc_updateLibrariesIndex = (\<lambda>n.
        if n < 2 then ([progress ''library_index.json'' False], OnError ''Error: 14 UNAVAILABLE'')
        else ([progress ''library_index.json'' True], OnEnd))\<rparr>"

text \<open>Both syncs fail on every attempt.\<close>

definition d_all_fail :: daemon where
  "d_all_fail =
     \<lparr>rpc_init = (\<lambda>n. ([\<lparr>getInstance = Some 1\<rparr>], OnEnd)),
      rpc_updateIndex = (\<lambda>n. ([], OnError ''Error: 14 UNAVAILABLE'')),
      rpc_updateLibrariesIndex = (\<lambda>n. ([], OnError ''Error: 14 UNAVAILABLE''))\<rparr>"

text \<open>The init stream ends without any message.\<close>

definition d_init_empty :: daemon where
  "d_init_empty = d_ok\<lparr>rpc_init := (\<lambda>n. ([], OnEnd))\<rparr>"

text \<open>The init stream ends on a message that carries no instance.\<close>

definition d_init_no_instance :: daemon where
  "d_init_no_instance =
     d_ok\<lparr>rpc_init := (\<lambda>n. ([\<lparr>getInstance = Some 1\<rparr>, \<lparr>getInstance = None\<rparr>], OnEnd))\<rparr>"


section \<open>Effects accumulate\<close>

lemma emit_emitAll: "emit e w = emitAll [e] w"
  by (simp add: emit_def emitAll_def)

lemma emitAll_emitAll: "emitAll es2 (emitAll es1 w) = emitAll (es1 @ es2) w"
  by (simp add: emitAll_def)

lemma emitAll_fields [simp]:
  "trace (emitAll es w) = trace w @ es"
  "this_port (emitAll es w) = this_port w"
  "this_client (emitAll es w) = this_client w"
  "initCalls (emitAll es w) = initCalls w"
  "indexCalls (emitAll es w) = indexCalls w"
  "libCalls (emitAll es w) = libCalls w"
  by (simp_all add: emitAll_def)

lemma emitAll_indexCalls_update:
  "emitAll es (w\<lparr>indexCalls := n\<rparr>) = (emitAll es w)\<lparr>indexCalls := n\<rparr>"
  by (simp add: emitAll_def)

lemma emitAll_libCalls_update:
  "emitAll es (w\<lparr>libCalls := n\<rparr>) = (emitAll es w)\<lparr>libCalls := n\<rparr>"
  by (simp add: emitAll_def)

section \<open>The data handlers\<close>

lemma trackedName_snoc:
  "trackedName (cur @ [p]) =
     (if \<not> truthy (trackedName cur) \<and> truthy (Some (getFile p)) then Some (getFile p)
      else trackedName cur)"
  by (induction cur) (auto simp: trackedName_def)

lemma trackedName_nonempty: "trackedName cur = Some f \<Longrightarrow> f \<noteq> []"
  by (induction cur) (auto simp: trackedName_def split: if_splits)

lemma updateIndex_onData_step:
  "updateIndex_onData (trackedName cur, w) m =
     (case getDownloadProgress m of
        None \<Rightarrow> (trackedName cur, w)
      | Some p \<Rightarrow>
          if getCompleted p
          then (None, emit (Append (completionLine indexUpdatedLine (cur @ [p]))) w)
          else (trackedName (cur @ [p]), w))"
proof (cases "getDownloadProgress m")
  case None
  then show ?thesis by (simp add: updateIndex_onData_def)
next
  case progress: (Some p)
  show ?thesis
  proof (cases "trackedName (cur @ [p])")
    case None
    with progress show ?thesis
      by (simp add: updateIndex_onData_def trackedName_snoc [symmetric] completionLine_def
          indexUpdatedLine_def toolOutputService_append_def del: truthy.simps)
  next
    case (Some f)
    then have "f \<noteq> []" by (rule trackedName_nonempty)
    with Some progress show ?thesis
      by (simp add: updateIndex_onData_def trackedName_snoc [symmetric] completionLine_def
          fileLine_def toolOutputService_append_def del: truthy.simps)
  qed
qed

lemma updateLibraryIndex_onData_step:
  "updateLibraryIndex_onData (trackedName cur, w) m =
     (case getDownloadProgress m of
        None \<Rightarrow> (trackedName cur, w)
      | Some p \<Rightarrow>
          if getCompleted p
          then (None, emit (Append (completionLine libraryIndexUpdatedLine (cur @ [p]))) w)
          else (trackedName (cur @ [p]), w))"
proof (cases "getDownloadProgress m")
  case None
  then show ?thesis by (simp add: updateLibraryIndex_onData_def)
next
  case progress: (Some p)
  show ?thesis
  proof (cases "trackedName (cur @ [p])")
    case None
    with progress show ?thesis
      by (simp add: updateLibraryIndex_onData_def trackedName_snoc [symmetric]
          completionLine_def libraryIndexUpdatedLine_def toolOutputService_append_def
          del: truthy.simps)
  next
    case (Some f)
    then have "f \<noteq> []" by (rule trackedName_nonempty)
    with Some progress show ?thesis
      by (simp add: updateLibraryIndex_onData_def trackedName_snoc [symmetric]
          completionLine_def fileLine_def toolOutputService_append_def del: truthy.simps)
  qed
qed

lemma trackedName_Nil: "trackedName [] = None"
  by (simp add: trackedName_def)

lemma updateIndex_fold:
  "snd (foldl updateIndex_onData (trackedName cur, w) msgs) =
     emitAll (completionLines indexUpdatedLine cur msgs) w"
proof (induction msgs arbitrary: cur w)
  case Nil
  show ?case by (simp add: completionLines_def progressEvents_def emitAll_def map_filter_simps)
next
  case (Cons m msgs)
  show ?case
  proof (cases "getDownloadProgress m")
    case None
    then show ?thesis
      using Cons.IH [of cur w]
      by (simp add: updateIndex_onData_step completionLines_def progressEvents_def
          map_filter_simps)
  next
    case (Some p)
    then show ?thesis
      using Cons.IH [of "cur @ [p]" w]
        Cons.IH [of "[]" "emit (Append (completionLine indexUpdatedLine (cur @ [p]))) w"]
      by (simp add: updateIndex_onData_step completionLines_def progressEvents_def
          map_filter_simps trackedName_Nil emitAll_def emit_def)
  qed
qed

lemma updateLibraryIndex_fold:
  "snd (foldl updateLibraryIndex_onData (trackedName cur, w) msgs) =
     emitAll (completionLines libraryIndexUpdatedLine cur msgs) w"
proof (induction msgs arbitrary: cur w)
  case Nil
  show ?case by (simp add: completionLines_def progressEvents_def emitAll_def map_filter_simps)
next
  case (Cons m msgs)
  show ?case
  proof (cases "getDownloadProgress m")
    case None
    then show ?thesis
      using Cons.IH [of cur w]
      by (simp add: updateLibraryIndex_onData_step completionLines_def progressEvents_def
          map_filter_simps)
  next
    case (Some p)
    then show ?thesis
      using Cons.IH [of "cur @ [p]" w]
        Cons.IH [of "[]" "emit (Append (completionLine libraryIndexUpdatedLine (cur @ [p]))) w"]
      by (simp add: updateLibraryIndex_onData_step completionLines_def progressEvents_def
          map_filter_simps trackedName_Nil emitAll_def emit_def)
  qed
qed

lemma updateIndex_eq:
  "updateIndex d c w =
     (outcome (snd (rpc_updateIndex d (indexCalls w))),
      emitAll (UpdateIndexCall (client c) (inst c)
                # completionLines indexUpdatedLine [] (fst (rpc_updateIndex d (indexCalls w))))
        (w\<lparr>indexCalls := Suc (indexCalls w)\<rparr>))"
proof -
  obtain msgs fin where s: "rpc_updateIndex d (indexCalls w) = (msgs, fin)"
    by (cases "rpc_updateIndex d (indexCalls w)")
  show ?thesis
    using updateIndex_fold [of "[]"]
    by (cases fin) (simp_all add: updateIndex_def s trackedName_Nil emit_emitAll emitAll_emitAll)
qed

lemma updateLibraryIndex_eq:
  "updateLibraryIndex d c w =
     (outcome (snd (rpc_updateLibrariesIndex d (libCalls w))),
      emitAll (UpdateLibrariesIndexCall (client c) (inst c)
                # completionLines libraryIndexUpdatedLine [] (fst (rpc_updateLibrariesIndex d (libCalls w))))
        (w\<lparr>libCalls := Suc (libCalls w)\<rparr>))"
proof -
  obtain msgs fin where s: "rpc_updateLibrariesIndex d (libCalls w) = (msgs, fin)"
    by (cases "rpc_updateLibrariesIndex d (libCalls w)")
  show ?thesis
    using updateLibraryIndex_fold [of "[]"]
    by (cases fin)
      (simp_all add: updateLibraryIndex_def s trackedName_Nil emit_emitAll emitAll_emitAll)
qed


section \<open>The retry loops\<close>

lemma completionLine_severity:
  "severity generic = None \<Longrightarrow> severity (completionLine generic seg) = None"
  by (simp add: completionLine_def fileLine_def split: option.splits)

lemma completionLines_no_error:
  "severity generic = None \<Longrightarrow> filter attemptErrorLine (completionLines generic cur msgs) = []"
  by (simp add: completionLines_def filter_empty_conv completionLine_severity)

lemma completionLines_indexEffect: "list_all (indexEffect c) (completionLines generic cur msgs)"
  by (simp add: completionLines_def list_all_iff)

lemma completionLines_libEffect: "list_all (libEffect c) (completionLines generic cur msgs)"
  by (simp add: completionLines_def list_all_iff)

lemma failedCalls_empty [simp]: "failedCalls rpc m m = []"
  by (simp add: failedCalls_def)

lemma failedCalls_first:
  "failedCalls rpc m (Suc (m + k)) =
     (if snd (rpc m) \<noteq> OnEnd then [m] else []) @ failedCalls rpc (Suc m) (Suc (m + k))"
proof -
  have "[m ..< Suc (m + k)] = m # [Suc m ..< Suc (m + k)]"
    by (simp add: upt_conv_Cons)
  then show ?thesis
    by (simp add: failedCalls_def)
qed

lemma outcome_Inr: "outcome fin = Inr u \<longleftrightarrow> fin = OnEnd"
  by (cases fin) simp_all

lemma outcome_Inl: "outcome fin = Inl e \<Longrightarrow> fin \<noteq> OnEnd"
  by (cases fin) simp_all

declare updateIndexes_indexLoop.simps [simp del] updateIndexes_libLoop.simps [simp del]

lemma indexLoop_flag: "fst (updateIndexes_indexLoop d c i True w) = True"
proof (induction d c i "True" w rule: updateIndexes_indexLoop.induct)
  case (1 d c i w)
  show ?case
  proof (cases "updateIndex d c w")
    case (Pair r w1)
    with "1" show ?thesis
      by (cases r) (simp_all add: updateIndexes_indexLoop.simps [of d c i True w])
  qed
qed

lemma libLoop_flag: "fst (updateIndexes_libLoop d c i True w) = True"
proof (induction d c i "True" w rule: updateIndexes_libLoop.induct)
  case (1 d c i w)
  show ?case
  proof (cases "updateLibraryIndex d c w")
    case (Pair r w1)
    with "1" show ?thesis
      by (cases r) (simp_all add: updateIndexes_libLoop.simps [of d c i True w])
  qed
qed


lemma attemptErrorLine_index:
  "attemptErrorLine (Append \<lparr>tool = ''daemon'',
     chunk = ''Error while updating index in attempt '' @ n @ '': '' @ e,
     severity = Some ''error''\<rparr>)"
  by simp

lemma attemptErrorLine_lib:
  "attemptErrorLine (Append \<lparr>tool = ''daemon'',
     chunk = ''Error while updating library index in attempt '' @ n @ '': '' @ e,
     severity = Some ''error''\<rparr>)"
  by simp

lemma indexLoop_shape:
  "\<exists>k P. snd (updateIndexes_indexLoop d c i s w) = emitAll P (w\<lparr>indexCalls := indexCalls w + k\<rparr>)
     \<and> list_all (indexEffect c) P
     \<and> length (filter attemptErrorLine P) =
         length (failedCalls (rpc_updateIndex d) (indexCalls w) (indexCalls w + k))
     \<and> k \<le> 10 - i
     \<and> (i < 10 \<longrightarrow> 0 < k \<and> (\<exists>P'. P = UpdateIndexCall (client c) (inst c) # P'))"
proof (induction d c i s w rule: updateIndexes_indexLoop.induct)
  case (1 d c i s w)
  define n where "n = indexCalls w"
  define fin where "fin = snd (rpc_updateIndex d n)"
  define Q where "Q = UpdateIndexCall (client c) (inst c)
    # completionLines indexUpdatedLine [] (fst (rpc_updateIndex d n))"
  define w1 where "w1 = emitAll Q (w\<lparr>indexCalls := Suc n\<rparr>)"
  have run: "updateIndex d c w = (outcome fin, w1)"
    by (simp add: updateIndex_eq fin_def w1_def Q_def n_def)
  have Q_eff: "list_all (indexEffect c) Q"
    by (simp add: Q_def completionLines_indexEffect)
  have Q_err: "filter attemptErrorLine Q = []"
    by (simp add: Q_def completionLines_no_error indexUpdatedLine_def)
  show ?case
  proof (cases "i < 10")
    case False
    then have "snd (updateIndexes_indexLoop d c i s w) = emitAll [] (w\<lparr>indexCalls := indexCalls w + 0\<rparr>)"
      by (simp add: emitAll_def updateIndexes_indexLoop.simps [of d c i s w])
    with False show ?thesis
      by (intro exI [of _ 0] exI [of _ "[]"]) simp
  next
    case True
    show ?thesis
    proof (cases fin)
      case OnEnd
      with True run have "snd (updateIndexes_indexLoop d c i s w) = emitAll Q (w\<lparr>indexCalls := indexCalls w + 1\<rparr>)"
        by (simp add: w1_def n_def updateIndexes_indexLoop.simps [of d c i s w])
      moreover have "failedCalls (rpc_updateIndex d) n (n + 1) = []"
        using OnEnd by (simp add: failedCalls_def fin_def)
      ultimately show ?thesis
        using True Q_eff Q_err
        by (intro exI [of _ 1] exI [of _ Q]) (simp add: n_def Q_def)
    next
      case (OnError err)
      define line where "line = \<lparr>tool = ''daemon'',
        chunk = ''Error while updating index in attempt '' @ showNat i @ '': ''
          @ toString (StreamError err),
        severity = Some ''error''\<rparr>"
      define w2 where "w2 = toolOutputService_append line w1"
      have w2: "w2 = emitAll (Q @ [Append line]) (w\<lparr>indexCalls := Suc n\<rparr>)"
        by (simp add: w2_def w1_def toolOutputService_append_def emit_emitAll emitAll_emitAll)
      have step: "updateIndexes_indexLoop d c i s w = updateIndexes_indexLoop d c (Suc i) s w2"
        using True run OnError
        by (simp add: w2_def line_def updateIndexes_indexLoop.simps [of d c i s w])
      have "outcome fin = Inl (StreamError err)"
        using OnError by simp
      from "1.IH" [OF True run [symmetric] this]
      have "\<exists>k P. snd (updateIndexes_indexLoop d c (Suc i) s w2) = emitAll P (w2\<lparr>indexCalls := indexCalls w2 + k\<rparr>)
         \<and> list_all (indexEffect c) P
         \<and> length (filter attemptErrorLine P) =
             length (failedCalls (rpc_updateIndex d) (indexCalls w2) (indexCalls w2 + k))
         \<and> k \<le> 10 - Suc i
         \<and> (Suc i < 10 \<longrightarrow> 0 < k \<and> (\<exists>P'. P = UpdateIndexCall (client c) (inst c) # P'))"
        unfolding w2_def line_def .
      then obtain k P where
        snd_eq: "snd (updateIndexes_indexLoop d c (Suc i) s w2) = emitAll P (w2\<lparr>indexCalls := indexCalls w2 + k\<rparr>)"
        and eff: "list_all (indexEffect c) P"
        and err: "length (filter attemptErrorLine P) =
           length (failedCalls (rpc_updateIndex d) (indexCalls w2) (indexCalls w2 + k))"
        and k: "k \<le> 10 - Suc i"
        by blast
      have n2: "indexCalls w2 = Suc n" by (simp add: w2)
      have "emitAll P (w2\<lparr>indexCalls := indexCalls w2 + k\<rparr>) =
          emitAll ((Q @ [Append line]) @ P) (w\<lparr>indexCalls := indexCalls w + Suc k\<rparr>)"
        by (simp add: w2 emitAll_def n_def)
      with step snd_eq have "snd (updateIndexes_indexLoop d c i s w) =
          emitAll ((Q @ [Append line]) @ P) (w\<lparr>indexCalls := indexCalls w + Suc k\<rparr>)"
        by (simp only:)
      moreover have "list_all (indexEffect c) ((Q @ [Append line]) @ P)"
        using Q_eff eff by simp
      moreover have "attemptErrorLine (Append line)"
        by (simp add: line_def)
      then have "length (filter attemptErrorLine ((Q @ [Append line]) @ P)) =
          length (failedCalls (rpc_updateIndex d) (indexCalls w) (indexCalls w + Suc k))"
        using Q_err err OnError
        by (simp add: n2 failedCalls_first [of _ n] fin_def n_def [symmetric] del: attemptErrorLine.simps)
      moreover have "Suc k \<le> 10 - i" using k True by simp
      moreover have "\<exists>P'. (Q @ [Append line]) @ P = UpdateIndexCall (client c) (inst c) # P'"
        by (simp add: Q_def)
      ultimately show ?thesis
        by (intro exI [of _ "Suc k"] exI [of _ "(Q @ [Append line]) @ P"]) simp
    qed
  qed
qed

lemma libLoop_shape:
  "\<exists>k P. snd (updateIndexes_libLoop d c i s w) = emitAll P (w\<lparr>libCalls := libCalls w + k\<rparr>)
     \<and> list_all (libEffect c) P
     \<and> length (filter attemptErrorLine P) =
         length (failedCalls (rpc_updateLibrariesIndex d) (libCalls w) (libCalls w + k))
     \<and> k \<le> 10 - i
     \<and> (i < 10 \<longrightarrow> 0 < k \<and> (\<exists>P'. P = UpdateLibrariesIndexCall (client c) (inst c) # P'))"
proof (induction d c i s w rule: updateIndexes_libLoop.induct)
  case (1 d c i s w)
  define n where "n = libCalls w"
  define fin where "fin = snd (rpc_updateLibrariesIndex d n)"
  define Q where "Q = UpdateLibrariesIndexCall (client c) (inst c)
    # completionLines libraryIndexUpdatedLine [] (fst (rpc_updateLibrariesIndex d n))"
  define w1 where "w1 = emitAll Q (w\<lparr>libCalls := Suc n\<rparr>)"
  have run: "updateLibraryIndex d c w = (outcome fin, w1)"
    by (simp add: updateLibraryIndex_eq fin_def w1_def Q_def n_def)
  have Q_eff: "list_all (libEffect c) Q"
    by (simp add: Q_def completionLines_libEffect)
  have Q_err: "filter attemptErrorLine Q = []"
    by (simp add: Q_def completionLines_no_error libraryIndexUpdatedLine_def)
  show ?case
  proof (cases "i < 10")
    case False
    then have "snd (updateIndexes_libLoop d c i s w) = emitAll [] (w\<lparr>libCalls := libCalls w + 0\<rparr>)"
      by (simp add: emitAll_def updateIndexes_libLoop.simps [of d c i s w])
    with False show ?thesis
      by (intro exI [of _ 0] exI [of _ "[]"]) simp
  next
    case True
    show ?thesis
    proof (cases fin)
      case OnEnd
      with True run have "snd (updateIndexes_libLoop d c i s w) = emitAll Q (w\<lparr>libCalls := libCalls w + 1\<rparr>)"
        by (simp add: w1_def n_def updateIndexes_libLoop.simps [of d c i s w])
      moreover have "failedCalls (rpc_updateLibrariesIndex d) n (n + 1) = []"
        using OnEnd by (simp add: failedCalls_def fin_def)
      ultimately show ?thesis
        using True Q_eff Q_err
        by (intro exI [of _ 1] exI [of _ Q]) (simp add: n_def Q_def)
    next
      case (OnError err)
      define line where "line = \<lparr>tool = ''daemon'',
        chunk = ''Error while updating library index in attempt '' @ showNat i @ '': ''
          @ toString (StreamError err),
        severity = Some ''error''\<rparr>"
      define w2 where "w2 = toolOutputService_append line w1"
      have w2: "w2 = emitAll (Q @ [Append line]) (w\<lparr>libCalls := Suc n\<rparr>)"
        by (simp add: w2_def w1_def toolOutputService_append_def emit_emitAll emitAll_emitAll)
      have step: "updateIndexes_libLoop d c i s w = updateIndexes_libLoop d c (Suc i) s w2"
        using True run OnError
        by (simp add: w2_def line_def updateIndexes_libLoop.simps [of d c i s w])
      have "outcome fin = Inl (StreamError err)"
        using OnError by simp
      from "1.IH" [OF True run [symmetric] this]
      have "\<exists>k P. snd (updateIndexes_libLoop d c (Suc i) s w2) = emitAll P (w2\<lparr>libCalls := libCalls w2 + k\<rparr>)
         \<and> list_all (libEffect c) P
         \<and> length (filter attemptErrorLine P) =
             length (failedCalls (rpc_updateLibrariesIndex d) (libCalls w2) (libCalls w2 + k))
         \<and> k \<le> 10 - Suc i
         \<and> (Suc i < 10 \<longrightarrow> 0 < k \<and> (\<exists>P'. P = UpdateLibrariesIndexCall (client c) (inst c) # P'))"
        unfolding w2_def line_def .
      then obtain k P where
        snd_eq: "snd (updateIndexes_libLoop d c (Suc i) s w2) = emitAll P (w2\<lparr>libCalls := libCalls w2 + k\<rparr>)"
        and eff: "list_all (libEffect c) P"
        and err: "length (filter attemptErrorLine P) =
           length (failedCalls (rpc_updateLibrariesIndex d) (libCalls w2) (libCalls w2 + k))"
        and k: "k \<le> 10 - Suc i"
        by blast
      have n2: "libCalls w2 = Suc n" by (simp add: w2)
      have "emitAll P (w2\<lparr>libCalls := libCalls w2 + k\<rparr>) =
          emitAll ((Q @ [Append line]) @ P) (w\<lparr>libCalls := libCalls w + Suc k\<rparr>)"
        by (simp add: w2 emitAll_def n_def)
      with step snd_eq have "snd (updateIndexes_libLoop d c i s w) =
          emitAll ((Q @ [Append line]) @ P) (w\<lparr>libCalls := libCalls w + Suc k\<rparr>)"
        by (simp only:)
      moreover have "list_all (libEffect c) ((Q @ [Append line]) @ P)"
        using Q_eff eff by simp
      moreover have "attemptErrorLine (Append line)"
        by (simp add: line_def)
      then have "length (filter attemptErrorLine ((Q @ [Append line]) @ P)) =
          length (failedCalls (rpc_updateLibrariesIndex d) (libCalls w) (libCalls w + Suc k))"
        using Q_err err OnError
        by (simp add: n2 failedCalls_first [of _ n] fin_def n_def [symmetric] del: attemptErrorLine.simps)
      moreover have "Suc k \<le> 10 - i" using k True by simp
      moreover have "\<exists>P'. (Q @ [Append line]) @ P = UpdateLibrariesIndexCall (client c) (inst c) # P'"
        by (simp add: Q_def)
      ultimately show ?thesis
        by (intro exI [of _ "Suc k"] exI [of _ "(Q @ [Append line]) @ P"]) simp
    qed
  qed
qed


lemma updateIndexes_eq:
  "updateIndexes d c w =
     (Inr (), emit IndexUpdatedFired
        (snd (updateIndexes_libLoop d c 0 True (snd (updateIndexes_indexLoop d c 0 True w)))))"
proof -
  obtain s1 w1 where l1: "updateIndexes_indexLoop d c 0 True w = (s1, w1)"
    by (cases "updateIndexes_indexLoop d c 0 True w")
  obtain s2 w3 where l2: "updateIndexes_libLoop d c 0 True w1 = (s2, w3)"
    by (cases "updateIndexes_libLoop d c 0 True w1")
  have "s1" using indexLoop_flag [of d c 0 w] by (simp add: l1)
  moreover have "s2" using libLoop_flag [of d c 0 w1] by (simp add: l2)
  ultimately show ?thesis
    by (simp add: updateIndexes_def l1 l2)
qed

lemma updateIndexes_shape:
  obtains k1 P k2 L where
    "snd (updateIndexes_indexLoop d c 0 True w) =
       emitAll (UpdateIndexCall (client c) (inst c) # P) (w\<lparr>indexCalls := indexCalls w + k1\<rparr>)"
    "updateIndexes d c w =
       (Inr (), emitAll ((UpdateIndexCall (client c) (inst c) # P)
                  @ (UpdateLibrariesIndexCall (client c) (inst c) # L) @ [IndexUpdatedFired])
                (w\<lparr>indexCalls := indexCalls w + k1, libCalls := libCalls w + k2\<rparr>))"
    "list_all (indexEffect c) P" "list_all (libEffect c) L"
    "length (filter attemptErrorLine P) =
       length (failedCalls (rpc_updateIndex d) (indexCalls w) (indexCalls w + k1))"
    "length (filter attemptErrorLine L) =
       length (failedCalls (rpc_updateLibrariesIndex d) (libCalls w) (libCalls w + k2))"
    "0 < k1" "k1 \<le> 10" "0 < k2" "k2 \<le> 10"
proof -
  from indexLoop_shape [of d c 0 True w] obtain k1 P where
    p1: "snd (updateIndexes_indexLoop d c 0 True w) =
       emitAll (UpdateIndexCall (client c) (inst c) # P) (w\<lparr>indexCalls := indexCalls w + k1\<rparr>)"
    and p2: "list_all (indexEffect c) (UpdateIndexCall (client c) (inst c) # P)"
    and p3: "length (filter attemptErrorLine (UpdateIndexCall (client c) (inst c) # P)) =
       length (failedCalls (rpc_updateIndex d) (indexCalls w) (indexCalls w + k1))"
    and p4: "0 < k1" "k1 \<le> 10"
    by auto
  define w1 where "w1 = snd (updateIndexes_indexLoop d c 0 True w)"
  from libLoop_shape [of d c 0 True w1] obtain k2 L where
    q1: "snd (updateIndexes_libLoop d c 0 True w1) =
       emitAll (UpdateLibrariesIndexCall (client c) (inst c) # L) (w1\<lparr>libCalls := libCalls w1 + k2\<rparr>)"
    and q2: "list_all (libEffect c) (UpdateLibrariesIndexCall (client c) (inst c) # L)"
    and q3: "length (filter attemptErrorLine (UpdateLibrariesIndexCall (client c) (inst c) # L)) =
       length (failedCalls (rpc_updateLibrariesIndex d) (libCalls w1) (libCalls w1 + k2))"
    and q4: "0 < k2" "k2 \<le> 10"
    by auto
  have lc: "libCalls w1 = libCalls w"
    by (simp add: w1_def p1)
  have "updateIndexes d c w =
       (Inr (), emitAll ((UpdateIndexCall (client c) (inst c) # P)
                  @ (UpdateLibrariesIndexCall (client c) (inst c) # L) @ [IndexUpdatedFired])
                (w\<lparr>indexCalls := indexCalls w + k1, libCalls := libCalls w + k2\<rparr>))"
    unfolding updateIndexes_eq w1_def [symmetric] q1
    by (simp add: w1_def p1 emitAll_def emit_def)
  with p1 p2 p3 p4 q2 q3 q4 lc show thesis
    by (intro that [of P k1 L k2]) simp_all
qed

section \<open>Whole runs\<close>

lemma indexEffect_syncEffect: "indexEffect c e \<Longrightarrow> syncEffect c e"
  by (cases e) simp_all

lemma libEffect_syncEffect: "libEffect c e \<Longrightarrow> syncEffect c e"
  by (cases e) simp_all

lemma indexEffect_no_libCall: "list_all (indexEffect c) P \<Longrightarrow> filter isUpdateLibrariesIndexCall P = []"
proof (induction P)
  case Nil
  show ?case by simp
next
  case (Cons e P)
  then show ?case by (cases e) simp_all
qed

lemma libEffect_no_indexCall: "list_all (libEffect c) L \<Longrightarrow> filter isUpdateIndexCall L = []"
proof (induction L)
  case Nil
  show ?case by simp
next
  case (Cons e L)
  then show ?case by (cases e) simp_all
qed

lemma syncEffect_quiet:
  assumes "list_all (syncEffect c) tr"
  shows "ClientReadyFired \<notin> set tr" and "Connect a \<notin> set tr" and "Close a \<notin> set tr"
    and "InitCall a \<notin> set tr"
  using assms by (auto simp: list_all_iff)

lemma updateIndexes_run:
  obtains tr k1 k2 where
    "updateIndexes d c w =
       (Inr (), emitAll (tr @ [IndexUpdatedFired])
                  (w\<lparr>indexCalls := indexCalls w + k1, libCalls := libCalls w + k2\<rparr>))"
    "list_all (syncEffect c) tr"
    "UpdateIndexCall (client c) (inst c) \<in> set tr"
    "UpdateLibrariesIndexCall (client c) (inst c) \<in> set tr"
proof -
  obtain k1 P k2 L where
    run: "updateIndexes d c w =
       (Inr (), emitAll ((UpdateIndexCall (client c) (inst c) # P)
                  @ (UpdateLibrariesIndexCall (client c) (inst c) # L) @ [IndexUpdatedFired])
                (w\<lparr>indexCalls := indexCalls w + k1, libCalls := libCalls w + k2\<rparr>))"
    and P: "list_all (indexEffect c) P" and L: "list_all (libEffect c) L"
    by (rule updateIndexes_shape)
  define tr where "tr = (UpdateIndexCall (client c) (inst c) # P)
    @ (UpdateLibrariesIndexCall (client c) (inst c) # L)"
  have all: "list_all (syncEffect c) tr"
    using P L by (auto simp: tr_def list_all_iff indexEffect_syncEffect libEffect_syncEffect)
  have run': "updateIndexes d c w =
       (Inr (), emitAll (tr @ [IndexUpdatedFired])
                  (w\<lparr>indexCalls := indexCalls w + k1, libCalls := libCalls w + k2\<rparr>))"
    by (simp add: run tr_def)
  have m1: "UpdateIndexCall (client c) (inst c) \<in> set tr"
    and m2: "UpdateLibrariesIndexCall (client c) (inst c) \<in> set tr"
    by (simp_all add: tr_def)
  from run' all m1 m2 show thesis
    by (rule that)
qed

lemma foldl_last: "foldl (\<lambda>resp data. Some data) a msgs = (if msgs = [] then a else Some (last msgs))"
  by (induction msgs arbitrary: a) simp_all

lemma createClient_eq:
  "createClient d p w =
     (case createClient_initResp (rpc_init d (initCalls w)) of
        Inl e \<Rightarrow>
          (Inl e, emitAll [Connect (''localhost:'' @ p), InitCall (''localhost:'' @ p)]
                    (w\<lparr>initCalls := Suc (initCalls w)\<rparr>))
      | Inr None \<Rightarrow>
          (Inl TypeError, emitAll [Connect (''localhost:'' @ p), InitCall (''localhost:'' @ p)]
                            (w\<lparr>initCalls := Suc (initCalls w)\<rparr>))
      | Inr (Some initResp) \<Rightarrow>
          (case getInstance initResp of
             None \<Rightarrow>
               (Inl InitializationError,
                emitAll [Connect (''localhost:'' @ p), InitCall (''localhost:'' @ p)]
                  (w\<lparr>initCalls := Suc (initCalls w)\<rparr>))
           | Some i \<Rightarrow>
               (Inr \<lparr>client = ''localhost:'' @ p, inst = i\<rparr>,
                snd (updateIndexes d \<lparr>client = ''localhost:'' @ p, inst = i\<rparr>
                  (emitAll [Connect (''localhost:'' @ p), InitCall (''localhost:'' @ p)]
                    (w\<lparr>initCalls := Suc (initCalls w)\<rparr>))))))"
  by (simp add: createClient_def Let_def emit_def emitAll_def updateIndexes_eq
      split: sum.splits option.splits)

lemma createClient_trace:
  obtains tr where
    "trace (snd (createClient d p w)) = trace w @ tr"
    "ClientReadyFired \<notin> set tr"
    "this_client (snd (createClient d p w)) = this_client w"
    "this_port (snd (createClient d p w)) = this_port w"
proof (cases "\<exists>r i. createClient_initResp (rpc_init d (initCalls w)) = Inr (Some r) \<and> getInstance r = Some i")
  case False
  then have "snd (createClient d p w) =
      emitAll [Connect (''localhost:'' @ p), InitCall (''localhost:'' @ p)] (w\<lparr>initCalls := Suc (initCalls w)\<rparr>)"
    by (auto simp: createClient_eq split: sum.splits option.splits)
  then show thesis
    by (intro that [of "[Connect (''localhost:'' @ p), InitCall (''localhost:'' @ p)]"]) simp_all
next
  case True
  then obtain r i where r: "createClient_initResp (rpc_init d (initCalls w)) = Inr (Some r)"
    and i: "getInstance r = Some i" by blast
  define hs where "hs = emitAll [Connect (''localhost:'' @ p), InitCall (''localhost:'' @ p)]
                    (w\<lparr>initCalls := Suc (initCalls w)\<rparr>)"
  define cl where "cl = \<lparr>client = ''localhost:'' @ p, inst = i\<rparr>"
  obtain tr k1 k2 where
    run: "updateIndexes d cl hs =
       (Inr (), emitAll (tr @ [IndexUpdatedFired])
                  (hs\<lparr>indexCalls := indexCalls hs + k1, libCalls := libCalls hs + k2\<rparr>))"
    and tr: "list_all (syncEffect cl) tr"
    by (rule updateIndexes_run)
  have s: "snd (createClient d p w) = emitAll (tr @ [IndexUpdatedFired])
                  (hs\<lparr>indexCalls := indexCalls hs + k1, libCalls := libCalls hs + k2\<rparr>)"
    using run by (simp add: createClient_eq r i hs_def cl_def)
  show thesis
  proof (rule that [of "[Connect (''localhost:'' @ p), InitCall (''localhost:'' @ p)] @ tr @ [IndexUpdatedFired]"])
    show "ClientReadyFired \<notin> set ([Connect (''localhost:'' @ p), InitCall (''localhost:'' @ p)] @ tr @ [IndexUpdatedFired])"
      using syncEffect_quiet(1) [OF tr] by simp
  qed (simp_all add: s hs_def)
qed

lemma createClient_no_instance:
  assumes "rpc_init d (initCalls w) = (msgs, OnEnd)" and "msgs \<noteq> []"
    and "getInstance (last msgs) = None"
  shows "createClient d p w =
     (Inl InitializationError,
      emitAll [Connect (''localhost:'' @ p), InitCall (''localhost:'' @ p)]
        (w\<lparr>initCalls := Suc (initCalls w)\<rparr>))"
  using assms by (simp add: createClient_eq createClient_initResp_def foldl_last)

lemma super_reconcileClient_trace:
  obtains tr where
    "trace (snd (super_reconcileClient d port w)) = trace w @ tr"
    "ClientReadyFired \<notin> set tr"
proof -
  define w1 where "w1 = (case this_client w of Some c \<Rightarrow> close c w | None \<Rightarrow> w)"
  define w2 where "w2 = w1\<lparr>this_port := None, this_client := None\<rparr>"
  obtain tr1 where tr1: "trace w2 = trace w @ tr1" "ClientReadyFired \<notin> set tr1"
    by (cases "this_client w") (simp_all add: w2_def w1_def close_def emit_def)
  show thesis
  proof (cases port)
    case None
    then have "snd (super_reconcileClient d port w) = w2"
      by (simp add: super_reconcileClient_def w2_def w1_def Let_def)
    with tr1 show ?thesis by (intro that [of tr1]) simp_all
  next
    case (Some p)
    obtain tr2 where tr2: "trace (snd (createClient d p w2)) = trace w2 @ tr2"
      "ClientReadyFired \<notin> set tr2"
      by (rule createClient_trace)
    have "trace (snd (super_reconcileClient d port w)) = trace (snd (createClient d p w2))"
      by (simp add: super_reconcileClient_def Some w2_def w1_def Let_def
          split: prod.splits sum.splits)
    with tr1 tr2 show ?thesis by (intro that [of "tr1 @ tr2"]) simp_all
  qed
qed

lemma super_reconcileClient_session:
  "this_client (snd (super_reconcileClient d port w)) = None
     \<Longrightarrow> this_port (snd (super_reconcileClient d port w)) = None"
proof -
  define w1 where "w1 = (case this_client w of Some c \<Rightarrow> close c w | None \<Rightarrow> w)"
  define w2 where "w2 = w1\<lparr>this_port := None, this_client := None\<rparr>"
  assume none: "this_client (snd (super_reconcileClient d port w)) = None"
  show ?thesis
  proof (cases port)
    case None
    then show ?thesis
      by (simp add: super_reconcileClient_def Let_def)
  next
    case (Some p)
    obtain tr where "this_port (snd (createClient d p w2)) = this_port w2"
      by (rule createClient_trace)
    then have port: "this_port (snd (createClient d p w2)) = None"
      by (simp add: w2_def)
    obtain r w3 where c: "createClient d p w2 = (r, w3)"
      by (cases "createClient d p w2")
    show ?thesis
    proof (cases r)
      case (Inl e)
      with c port Some show ?thesis
        by (simp add: super_reconcileClient_def Let_def w2_def w1_def)
    next
      case (Inr cl)
      with c none Some show ?thesis
        by (simp add: super_reconcileClient_def Let_def w2_def w1_def)
    qed
  qed
qed

lemma segmentsFrom_length:
  "length (segmentsFrom cur evs) = length (filter getCompleted evs)"
  by (induction evs arbitrary: cur) simp_all

text \<open>The definitions a run on a concrete daemon unfolds.\<close>

lemmas run_defs = updateIndexes_def updateIndexes_indexLoop.simps updateIndexes_libLoop.simps
  updateIndex_def updateLibraryIndex_def updateIndex_onData_def updateLibraryIndex_onData_def
  toolOutputService_append_def emit_def Let_def test_whitespace_def isWhitespace_def
  createClient_def createClient_initResp_def close_def super_reconcileClient_def
  reconcileClient_def progress_def

lemma reconcileClient_reuse:
  assumes "p \<noteq> []" and "this_port w = Some p" and "this_client w = Some c"
  shows "reconcileClient d (Some p) w =
     (Inr (), emit ClientReadyFired (snd (updateIndexes d c w)))"
  using assms by (simp add: reconcileClient_def updateIndexes_eq)

lemma updateIndexes_first_attempts:
  assumes "rpc_updateIndex d (indexCalls w) = (ms1, OnEnd)"
    and "rpc_updateLibrariesIndex d (libCalls w) = (ms2, OnEnd)"
  shows "updateIndexes d c w =
     (Inr (),
      emitAll (UpdateIndexCall (client c) (inst c) # completionLines indexUpdatedLine [] ms1
               @ UpdateLibrariesIndexCall (client c) (inst c)
                 # completionLines libraryIndexUpdatedLine [] ms2
               @ [IndexUpdatedFired])
        (w\<lparr>indexCalls := Suc (indexCalls w), libCalls := Suc (libCalls w)\<rparr>))"
proof -
  define w1 where "w1 = emitAll (UpdateIndexCall (client c) (inst c)
      # completionLines indexUpdatedLine [] ms1) (w\<lparr>indexCalls := Suc (indexCalls w)\<rparr>)"
  have l1: "updateIndexes_indexLoop d c 0 True w = (True, w1)"
    using assms(1)
    by (simp add: updateIndexes_indexLoop.simps [of d c 0 True w] updateIndex_eq w1_def)
  have "rpc_updateLibrariesIndex d (libCalls w1) = (ms2, OnEnd)"
    using assms(2) by (simp add: w1_def)
  then have l2: "updateIndexes_libLoop d c 0 True w1 =
      (True, emitAll (UpdateLibrariesIndexCall (client c) (inst c)
        # completionLines libraryIndexUpdatedLine [] ms2) (w1\<lparr>libCalls := Suc (libCalls w1)\<rparr>))"
    by (simp add: updateIndexes_libLoop.simps [of d c 0 True w1] updateLibraryIndex_eq)
  have "updateIndexes d c w =
      (Inr (), emit IndexUpdatedFired
        (emitAll (UpdateLibrariesIndexCall (client c) (inst c)
          # completionLines libraryIndexUpdatedLine [] ms2) (w1\<lparr>libCalls := Suc (libCalls w1)\<rparr>)))"
    by (simp only: updateIndexes_eq l1 l2 snd_conv)
  then show ?thesis
    by (simp add: w1_def emitAll_def emit_def)
qed

section \<open>The claims\<close>

text \<open>
  C1, as far as the code goes. The claim: each retry loop of \<^verbatim>\<open>updateIndexes\<close> makes
  at most 10 attempts and stops at the first success; \<open>k < 10\<close> failures followed by a
  success leave exactly \<open>k\<close> error lines and no terminal line; 10 failures leave 10
  error lines, one terminal "unable to update ... restart" line, and failure is reported.
  The code initialises both flags to \<^verbatim>\<open>true\<close> and never clears them, so the terminal
  line is never written. Here both syncs fail on all of their 10 attempts: there are 10
  calls of each RPC and 20 error lines, and neither terminal line is in the trace.
\<close>

theorem updateIndexes_exhausted_no_terminal_line:
  "indexCalls (snd (updateIndexes d_all_fail c0 w0)) = 10
   \<and> libCalls (snd (updateIndexes d_all_fail c0 w0)) = 10
   \<and> length (filter attemptErrorLine (trace (snd (updateIndexes d_all_fail c0 w0)))) = 20
   \<and> Append unableIndexLine \<notin> set (trace (snd (updateIndexes d_all_fail c0 w0)))
   \<and> Append unableLibraryIndexLine \<notin> set (trace (snd (updateIndexes d_all_fail c0 w0)))"
  by (simp add: run_defs d_all_fail_def c0_def w0_def unableIndexLine_def
      unableLibraryIndexLine_def)

text \<open>
  C2, as far as the code goes. The claim: \<^verbatim>\<open>updateIndexes\<close> reports success if and only
  if both syncs succeeded, and "index updated" fires if and only if it did. In the spec's
  scenario (the package-index sync fails 10 times out of 10, the library-index sync
  succeeds on its third attempt) the flag of the package loop is still \<^verbatim>\<open>true\<close> and
  the last effect of the run is the "index updated" notification.
\<close>

theorem updateIndexes_fires_after_failure:
  "indexCalls (snd (updateIndexes d_index_fails c0 w0)) = 10
   \<and> failedCalls (rpc_updateIndex d_index_fails) 0 10 = [0, 1, 2, 3, 4, 5, 6, 7, 8, 9]
   \<and> fst (updateIndexes_indexLoop d_index_fails c0 0 True w0) = True
   \<and> last (trace (snd (updateIndexes d_index_fails c0 w0))) = IndexUpdatedFired"
  by (simp add: run_defs d_index_fails_def c0_def w0_def failedCalls_def upt_rec)

text \<open>
  C3, amended. The claim: every invocation of \<^verbatim>\<open>reconcileClient\<close> fires "client
  ready" exactly once, whatever the endpoint. What holds: in a state where an endpoint is
  remembered only while a client is held (so it is initially, and every call keeps it so),
  a call that returns normally has fired "client ready" exactly once, as its last effect,
  whatever the endpoint and whatever the index synchronization did; a call that fails has
  not fired it.
\<close>

theorem reconcile_client_ready:
  assumes "this_client w = None \<Longrightarrow> this_port w = None"
  shows "case reconcileClient d port w of
     (Inr u, w') \<Rightarrow>
       (\<exists>tr. trace w' = trace w @ tr @ [ClientReadyFired] \<and> ClientReadyFired \<notin> set tr)
       \<and> (this_client w' = None \<longrightarrow> this_port w' = None)
   | (Inl e, w') \<Rightarrow>
       (\<exists>tr. trace w' = trace w @ tr \<and> ClientReadyFired \<notin> set tr)
       \<and> (this_client w' = None \<longrightarrow> this_port w' = None)"
proof (cases "truthy port \<and> port = this_port w")
  case reuse: True
  then have "this_port w \<noteq> None" by (cases "this_port w") auto
  with assms obtain c where Some: "this_client w = Some c" by auto
  obtain tr k1 k2 where
    run: "updateIndexes d c w =
       (Inr (), emitAll (tr @ [IndexUpdatedFired])
                  (w\<lparr>indexCalls := indexCalls w + k1, libCalls := libCalls w + k2\<rparr>))"
    and tr: "list_all (syncEffect c) tr"
    by (rule updateIndexes_run)
  have "ClientReadyFired \<notin> set (tr @ [IndexUpdatedFired])"
    using syncEffect_quiet(1) [OF tr] by simp
  then show ?thesis
    using reuse Some run
    by (auto simp: reconcileClient_def emit_def)
next
  case other: False
  obtain tr where tr: "trace (snd (super_reconcileClient d port w)) = trace w @ tr"
    "ClientReadyFired \<notin> set tr"
    by (rule super_reconcileClient_trace)
  obtain r w1 where s: "super_reconcileClient d port w = (r, w1)"
    by (cases "super_reconcileClient d port w")
  have inv: "this_client w1 = None \<longrightarrow> this_port w1 = None"
    using super_reconcileClient_session [of d port w] by (simp add: s)
  show ?thesis
  proof (cases r)
    case (Inl e)
    with other s tr inv show ?thesis by (auto simp: reconcileClient_def)
  next
    case (Inr u)
    with other s tr inv show ?thesis by (auto simp: reconcileClient_def emit_def)
  qed
qed

text \<open>
  The first signal for endpoint 50051 with no prior session, against the daemon whose
  package-index sync fails throughout: the call returns normally and "client ready" is
  its last effect.
\<close>

theorem reconcile_client_ready_witness:
  "this_client w0 = None \<and> this_port w0 = None
   \<and> fst (reconcileClient d_index_fails (Some ''50051'') w0) = Inr ()
   \<and> (\<exists>tr. trace (snd (reconcileClient d_index_fails (Some ''50051'') w0)) =
          trace w0 @ tr @ [ClientReadyFired] \<and> ClientReadyFired \<notin> set tr)"
proof -
  have run: "fst (reconcileClient d_index_fails (Some ''50051'') w0) = Inr ()"
    by (simp add: run_defs d_index_fails_def w0_def)
  have fresh: "this_client w0 = None" "this_port w0 = None"
    by (simp_all add: w0_def)
  show ?thesis
    using reconcile_client_ready [where d = d_index_fails and port = "Some ''50051''" and w = w0]
      run fresh
    by (cases "reconcileClient d_index_fails (Some ''50051'') w0") auto
qed

text \<open>
  C3 as stated fails when the handshake fails: a manager without session is reconciled
  with 50051 and the init stream ends on a message without instance. The call fails, and
  its effects are the connection and the init request only.
\<close>

theorem reconcile_client_ready_counterexample:
  "fst (reconcileClient d_init_no_instance (Some ''50051'') w0) = Inl InitializationError
   \<and> trace (snd (reconcileClient d_init_no_instance (Some ''50051'') w0)) =
       [Connect ''localhost:50051'', InitCall ''localhost:50051'']"
  by (simp add: run_defs d_init_no_instance_def d_ok_def w0_def)

text \<open>
  C4, as far as the code goes. The claim: \<^verbatim>\<open>createClient\<close> opens a connection, issues
  one init request, keeps the last message of the init stream, and fails with the
  initialization error whenever the stream ends without a usable instance, an empty
  stream included. On an init stream that ends without any message the promise resolves
  with \<^verbatim>\<open>undefined\<close> and \<^verbatim>\<open>initResp.getInstance()\<close> raises a \<^verbatim>\<open>TypeError\<close>; the
  error of line 87 is not reached.
\<close>

theorem createClient_empty_init_stream:
  "createClient d_init_empty ''50051'' w0 =
     (Inl TypeError,
      w0\<lparr>trace := [Connect ''localhost:50051'', InitCall ''localhost:50051''],
         initCalls := 1\<rparr>)"
  by (simp add: run_defs d_init_empty_def d_ok_def w0_def)




text \<open>
  C6. When the reuse test of line 58 fails for endpoint \<open>p\<close> and the init stream ends
  on a message without instance, \<^verbatim>\<open>reconcileClient\<close> fails with the initialization
  error of \<^verbatim>\<open>createClient\<close>, neither "client ready" nor "index updated" is among
  the effects of the call, and the manager holds no client and no endpoint afterwards.
\<close>

theorem handshake_failure_propagates:
  assumes "\<not> (truthy (Some p) \<and> Some p = this_port w)"
    and "rpc_init d (initCalls w) = (msgs, OnEnd)"
    and "msgs \<noteq> []"
    and "getInstance (last msgs) = None"
  shows "\<exists>tr w'. reconcileClient d (Some p) w = (Inl InitializationError, w')
     \<and> this_client w' = None \<and> this_port w' = None
     \<and> trace w' = trace w @ tr
     \<and> ClientReadyFired \<notin> set tr \<and> IndexUpdatedFired \<notin> set tr"
proof -
  define w1 where "w1 = (case this_client w of Some c \<Rightarrow> close c w | None \<Rightarrow> w)"
  define w2 where "w2 = w1\<lparr>this_port := None, this_client := None\<rparr>"
  define hs where "hs = [Connect (''localhost:'' @ p), InitCall (''localhost:'' @ p)]"
  obtain tr1 where tr1: "trace w2 = trace w @ tr1"
    "ClientReadyFired \<notin> set tr1" "IndexUpdatedFired \<notin> set tr1"
    by (cases "this_client w") (simp_all add: w2_def w1_def close_def emit_def)
  have init: "rpc_init d (initCalls w2) = (msgs, OnEnd)"
    using assms(2) by (cases "this_client w") (simp_all add: w2_def w1_def close_def emit_def)
  have create: "createClient d p w2 =
      (Inl InitializationError, emitAll hs (w2\<lparr>initCalls := Suc (initCalls w2)\<rparr>))"
    unfolding hs_def by (rule createClient_no_instance [OF init assms(3) assms(4)])
  have "super_reconcileClient d (Some p) w =
      (Inl InitializationError, emitAll hs (w2\<lparr>initCalls := Suc (initCalls w2)\<rparr>))"
    using create by (simp add: super_reconcileClient_def Let_def w2_def w1_def)
  then have "reconcileClient d (Some p) w =
      (Inl InitializationError, emitAll hs (w2\<lparr>initCalls := Suc (initCalls w2)\<rparr>))"
    using assms(1) by (auto simp: reconcileClient_def)
  moreover have "this_client (emitAll hs (w2\<lparr>initCalls := Suc (initCalls w2)\<rparr>)) = None"
    and "this_port (emitAll hs (w2\<lparr>initCalls := Suc (initCalls w2)\<rparr>)) = None"
    by (simp_all add: w2_def)
  moreover have "trace (emitAll hs (w2\<lparr>initCalls := Suc (initCalls w2)\<rparr>)) = trace w @ tr1 @ hs"
    by (simp add: tr1)
  moreover have "ClientReadyFired \<notin> set (tr1 @ hs)" and "IndexUpdatedFired \<notin> set (tr1 @ hs)"
    using tr1 by (simp_all add: hs_def)
  ultimately show ?thesis by blast
qed

text \<open>The endpoint changes from 50051 to 50052 and the new daemon's handshake fails.\<close>

theorem handshake_failure_propagates_witness:
  "\<exists>tr w'. reconcileClient d_init_no_instance (Some ''50052'') w_ready =
       (Inl InitializationError, w')
     \<and> this_client w' = None \<and> this_port w' = None
     \<and> trace w' = trace w_ready @ tr
     \<and> ClientReadyFired \<notin> set tr \<and> IndexUpdatedFired \<notin> set tr"
  using handshake_failure_propagates [where p = "''50052''" and w = w_ready
      and d = d_init_no_instance
      and msgs = "[\<lparr>getInstance = Some 1\<rparr>, \<lparr>getInstance = None\<rparr>]"]
  by (simp add: w_ready_def d_init_no_instance_def)

text \<open>
  C7. For every stream that \<^verbatim>\<open>updateIndex\<close> or \<^verbatim>\<open>updateLibraryIndex\<close> consumes,
  whether it ends or fails, the lines written are, in order, one per completed Progress
  Event: the filename-based line (in the phrasing for names with whitespace, or in the
  other) when an event since the last completion carried a filename, the generic line of
  the index kind otherwise. Each line depends on the events since the last completion
  only: the tracked filename is cleared at every completion.
\<close>

theorem one_completion_line_per_completed_event:
  "trace (snd (updateIndex d c w)) =
     trace w @ UpdateIndexCall (client c) (inst c)
       # map (\<lambda>seg. Append (completionLine indexUpdatedLine seg))
           (completedSegments (progressEvents (fst (rpc_updateIndex d (indexCalls w)))))
   \<and> trace (snd (updateLibraryIndex d c w)) =
     trace w @ UpdateLibrariesIndexCall (client c) (inst c)
       # map (\<lambda>seg. Append (completionLine libraryIndexUpdatedLine seg))
           (completedSegments (progressEvents (fst (rpc_updateLibrariesIndex d (libCalls w)))))
   \<and> length (completedSegments evs) = length (filter getCompleted evs)"
  by (simp add: updateIndex_eq updateLibraryIndex_eq completionLines_def completedSegments_def
      segmentsFrom_length)

text \<open>
  C8. In every run of \<^verbatim>\<open>updateIndexes\<close> the effects of the package-index loop, which
  begin with a package-index request and hold no library-index request, come first; what
  follows begins with a library-index request and holds no package-index request. So
  every line written by the package-index loop precedes every line of the library-index
  loop, and the library-index sync runs whatever the package-index loop did, also after
  10 failures.
\<close>

theorem package_before_library:
  "\<exists>P L. trace (snd (updateIndexes_indexLoop d c 0 True w)) =
       trace w @ UpdateIndexCall (client c) (inst c) # P
     \<and> trace (snd (updateIndexes d c w)) =
       trace w @ (UpdateIndexCall (client c) (inst c) # P)
         @ (UpdateLibrariesIndexCall (client c) (inst c) # L)
     \<and> filter isUpdateLibrariesIndexCall P = []
     \<and> filter isUpdateIndexCall L = []"
proof -
  obtain k1 P k2 L where
    loop: "snd (updateIndexes_indexLoop d c 0 True w) =
       emitAll (UpdateIndexCall (client c) (inst c) # P) (w\<lparr>indexCalls := indexCalls w + k1\<rparr>)"
    and run: "updateIndexes d c w =
       (Inr (), emitAll ((UpdateIndexCall (client c) (inst c) # P)
                  @ (UpdateLibrariesIndexCall (client c) (inst c) # L) @ [IndexUpdatedFired])
                (w\<lparr>indexCalls := indexCalls w + k1, libCalls := libCalls w + k2\<rparr>))"
    and P: "list_all (indexEffect c) P" and L: "list_all (libEffect c) L"
    by (rule updateIndexes_shape)
  have "trace (snd (updateIndexes_indexLoop d c 0 True w)) =
       trace w @ UpdateIndexCall (client c) (inst c) # P"
    by (simp add: loop)
  moreover have "trace (snd (updateIndexes d c w)) =
       trace w @ (UpdateIndexCall (client c) (inst c) # P)
         @ (UpdateLibrariesIndexCall (client c) (inst c) # (L @ [IndexUpdatedFired]))"
    by (simp add: run)
  moreover have "filter isUpdateLibrariesIndexCall P = []"
    using P by (rule indexEffect_no_libCall)
  moreover have "filter isUpdateIndexCall (L @ [IndexUpdatedFired]) = []"
    using libEffect_no_indexCall [OF L] by simp
  ultimately show ?thesis by blast
qed

text \<open>The same on the daemon whose package-index sync fails 10 times out of 10.\<close>

theorem package_before_library_witness:
  "length (failedCalls (rpc_updateIndex d_index_fails) (indexCalls w0) (indexCalls w0 + 10)) = 10
   \<and> (\<exists>P L. trace (snd (updateIndexes_indexLoop d_index_fails c0 0 True w0)) =
         trace w0 @ UpdateIndexCall (client c0) (inst c0) # P
       \<and> trace (snd (updateIndexes d_index_fails c0 w0)) =
         trace w0 @ (UpdateIndexCall (client c0) (inst c0) # P)
           @ (UpdateLibrariesIndexCall (client c0) (inst c0) # L)
       \<and> filter isUpdateLibrariesIndexCall P = []
       \<and> filter isUpdateIndexCall L = [])"
proof -
  have "length (failedCalls (rpc_updateIndex d_index_fails) (indexCalls w0) (indexCalls w0 + 10)) = 10"
    by (simp add: failedCalls_def d_index_fails_def w0_def)
  then show ?thesis
    using package_before_library [where d = d_index_fails and c = c0 and w = w0] by (intro conjI)
qed

text \<open>
  C9. \<^verbatim>\<open>updateIndexes\<close> never throws, whatever the streams do; the lines it writes for
  failed attempts are as many as the attempts that failed, of both RPCs together; whether
  \<^verbatim>\<open>createClient\<close> fails is decided by the handshake alone; and \<^verbatim>\<open>reconcileClient\<close>
  returns normally on the reuse path and otherwise ends as the superclass's method ends.
  So no failure of an index stream leaves the retry loops.
\<close>

theorem index_failures_stay_local:
  "fst (updateIndexes d c w) = Inr ()
   \<and> (\<exists>tr. trace (snd (updateIndexes d c w)) = trace w @ tr
        \<and> length (filter attemptErrorLine tr) =
            length (failedCalls (rpc_updateIndex d) (indexCalls w)
                      (indexCalls (snd (updateIndexes d c w))))
          + length (failedCalls (rpc_updateLibrariesIndex d) (libCalls w)
                      (libCalls (snd (updateIndexes d c w)))))
   \<and> fst (createClient d p w) =
       (case createClient_initResp (rpc_init d (initCalls w)) of
          Inl e \<Rightarrow> Inl e
        | Inr None \<Rightarrow> Inl TypeError
        | Inr (Some initResp) \<Rightarrow>
            (case getInstance initResp of
               None \<Rightarrow> Inl InitializationError
             | Some i \<Rightarrow> Inr \<lparr>client = ''localhost:'' @ p, inst = i\<rparr>))
   \<and> fst (reconcileClient d port w) =
       (if truthy port \<and> port = this_port w then Inr ()
        else fst (super_reconcileClient d port w))"
proof -
  obtain k1 P k2 L where
    run: "updateIndexes d c w =
       (Inr (), emitAll ((UpdateIndexCall (client c) (inst c) # P)
                  @ (UpdateLibrariesIndexCall (client c) (inst c) # L) @ [IndexUpdatedFired])
                (w\<lparr>indexCalls := indexCalls w + k1, libCalls := libCalls w + k2\<rparr>))"
    and P: "length (filter attemptErrorLine P) =
       length (failedCalls (rpc_updateIndex d) (indexCalls w) (indexCalls w + k1))"
    and L: "length (filter attemptErrorLine L) =
       length (failedCalls (rpc_updateLibrariesIndex d) (libCalls w) (libCalls w + k2))"
    by (rule updateIndexes_shape)
  have 1: "fst (updateIndexes d c w) = Inr ()"
    by (simp add: updateIndexes_eq)
  have 2: "\<exists>tr. trace (snd (updateIndexes d c w)) = trace w @ tr
        \<and> length (filter attemptErrorLine tr) =
            length (failedCalls (rpc_updateIndex d) (indexCalls w)
                      (indexCalls (snd (updateIndexes d c w))))
          + length (failedCalls (rpc_updateLibrariesIndex d) (libCalls w)
                      (libCalls (snd (updateIndexes d c w))))"
    using P L
    by (intro exI [of _ "(UpdateIndexCall (client c) (inst c) # P)
                  @ (UpdateLibrariesIndexCall (client c) (inst c) # L) @ [IndexUpdatedFired]"])
      (simp add: run)
  have 3: "fst (createClient d p w) =
       (case createClient_initResp (rpc_init d (initCalls w)) of
          Inl e \<Rightarrow> Inl e
        | Inr None \<Rightarrow> Inl TypeError
        | Inr (Some initResp) \<Rightarrow>
            (case getInstance initResp of
               None \<Rightarrow> Inl InitializationError
             | Some i \<Rightarrow> Inr \<lparr>client = ''localhost:'' @ p, inst = i\<rparr>))"
    by (simp add: createClient_eq split: sum.splits option.splits)
  have 4: "fst (reconcileClient d port w) =
       (if truthy port \<and> port = this_port w then Inr ()
        else fst (super_reconcileClient d port w))"
    by (auto simp: reconcileClient_def updateIndexes_eq split: option.splits prod.splits sum.splits)
  from 1 2 3 4 show ?thesis by (intro conjI)
qed

text \<open>
  C10. Two calls of \<^verbatim>\<open>reconcileClient\<close> in a row with the endpoint of the current
  session, each finding the same messages on its package-index stream and on its
  library-index stream and no stream failing, have the same effects, the same lines
  among them. The lines of each call are the completion lines of its own streams, each
  stream starting with no filename tracked.
\<close>

theorem reconcile_twice_same_lines:
  assumes "p \<noteq> []" and "this_port w = Some p" and "this_client w = Some c"
    and "rpc_updateIndex d (indexCalls w) = (ms1, OnEnd)"
    and "rpc_updateIndex d (Suc (indexCalls w)) = (ms1, OnEnd)"
    and "rpc_updateLibrariesIndex d (libCalls w) = (ms2, OnEnd)"
    and "rpc_updateLibrariesIndex d (Suc (libCalls w)) = (ms2, OnEnd)"
  shows "\<exists>tr w1 w2.
     reconcileClient d (Some p) w = (Inr (), w1)
     \<and> reconcileClient d (Some p) w1 = (Inr (), w2)
     \<and> trace w1 = trace w @ tr
     \<and> trace w2 = trace w1 @ tr
     \<and> tr = UpdateIndexCall (client c) (inst c) # completionLines indexUpdatedLine [] ms1
            @ UpdateLibrariesIndexCall (client c) (inst c)
              # completionLines libraryIndexUpdatedLine [] ms2
            @ [IndexUpdatedFired, ClientReadyFired]"
proof -
  define tr where "tr = UpdateIndexCall (client c) (inst c)
      # completionLines indexUpdatedLine [] ms1
      @ UpdateLibrariesIndexCall (client c) (inst c)
        # completionLines libraryIndexUpdatedLine [] ms2
      @ [IndexUpdatedFired, ClientReadyFired]"
  define w1 where "w1 = emitAll tr (w\<lparr>indexCalls := Suc (indexCalls w), libCalls := Suc (libCalls w)\<rparr>)"
  define w2 where "w2 = emitAll tr (w1\<lparr>indexCalls := Suc (indexCalls w1), libCalls := Suc (libCalls w1)\<rparr>)"
  have first: "reconcileClient d (Some p) w = (Inr (), w1)"
    by (simp add: reconcileClient_reuse [OF assms(1-3)]
        updateIndexes_first_attempts [OF assms(4) assms(6)] w1_def tr_def emitAll_def emit_def)
  have port1: "this_port w1 = Some p" and client1: "this_client w1 = Some c"
    using assms(2,3) by (simp_all add: w1_def)
  have i1: "rpc_updateIndex d (indexCalls w1) = (ms1, OnEnd)"
    and l1: "rpc_updateLibrariesIndex d (libCalls w1) = (ms2, OnEnd)"
    using assms(5,7) by (simp_all add: w1_def)
  have second: "reconcileClient d (Some p) w1 = (Inr (), w2)"
    by (simp add: reconcileClient_reuse [OF assms(1) port1 client1]
        updateIndexes_first_attempts [OF i1 l1] w2_def tr_def emitAll_def emit_def)
  have "trace w1 = trace w @ tr" and "trace w2 = trace w1 @ tr"
    by (simp_all add: w1_def w2_def)
  with first second show ?thesis
    unfolding tr_def by blast
qed

theorem reconcile_twice_same_lines_witness:
  "\<exists>tr w1 w2.
     reconcileClient d_ok (Some ''50051'') w_ready = (Inr (), w1)
     \<and> reconcileClient d_ok (Some ''50051'') w1 = (Inr (), w2)
     \<and> trace w1 = trace w_ready @ tr
     \<and> trace w2 = trace w1 @ tr
     \<and> tr = UpdateIndexCall (client c0) (inst c0)
              # completionLines indexUpdatedLine []
                  [progress ''package_index.json'' False, \<lparr>getDownloadProgress = None\<rparr>,
                   progress ''other.json'' True, progress ''my index.json'' True]
            @ UpdateLibrariesIndexCall (client c0) (inst c0)
              # completionLines libraryIndexUpdatedLine [] [progress [] False, progress [] True]
            @ [IndexUpdatedFired, ClientReadyFired]"
  using reconcile_twice_same_lines [where p = "''50051''" and w = w_ready and c = c0
      and d = d_ok
      and ?ms1.0 = "[progress ''package_index.json'' False, \<lparr>getDownloadProgress = None\<rparr>,
        progress ''other.json'' True, progress ''my index.json'' True]"
      and ?ms2.0 = "[progress [] False, progress [] True]"]
  by (simp add: w_ready_def d_ok_def)

end
